theory Spec2Isabelle
  imports Complex_Main "HOL-Library.Sublist" "HOL-Library.Multiset"
begin

section \<open>Python values, dictionaries and errors\<close>

text \<open>
  The knowledge base is whatever \<^verbatim>\<open>json.load\<close> returns: a list of dictionaries whose
  values are arbitrary JSON values. Nothing in the program validates them, so the model
  keeps them dynamically typed. A dictionary is an association list in insertion order;
  Python's floats are modelled as real numbers.
\<close>

datatype pyval =
    PNone
  | PBool bool
  | PInt int
  | PFloat real
  | PStr string
  | PList "pyval list"
  | PDict "(string \<times> pyval) list"

type_synonym pydict = "(string \<times> pyval) list"

type_synonym vec = "real list"

datatype error = KeyError string | TypeError | ZeroDivisionError

text \<open>\<^verbatim>\<open>d[k]\<close>: raises KeyError when the key is missing.\<close>

definition getitem :: "pydict \<Rightarrow> string \<Rightarrow> error + pyval" where
  "getitem d k = (case map_of d k of None \<Rightarrow> Inl (KeyError k) | Some v \<Rightarrow> Inr v)"

text \<open>\<^verbatim>\<open>d[k] = v\<close>: an existing key keeps its position, a new key goes last.\<close>

fun setitem :: "string \<Rightarrow> pyval \<Rightarrow> pydict \<Rightarrow> pydict" where
  "setitem k v [] = [(k, v)]"
| "setitem k v (p # ps) = (if fst p = k then (k, v) # ps else p # setitem k v ps)"

text \<open>Truth value of a Python object, as \<^verbatim>\<open>not x\<close> and \<^verbatim>\<open>if x\<close> test it.\<close>

fun truthy :: "pyval \<Rightarrow> bool" where
  "truthy PNone = False"
| "truthy (PBool b) = b"
| "truthy (PInt i) = (i \<noteq> 0)"
| "truthy (PFloat r) = (r \<noteq> 0)"
| "truthy (PStr s) = (s \<noteq> [])"
| "truthy (PList xs) = (xs \<noteq> [])"
| "truthy (PDict d) = (d \<noteq> [])"

text \<open>Lists and dictionaries are unhashable: using one as a dictionary key raises TypeError.\<close>

fun hashable :: "pyval \<Rightarrow> bool" where
  "hashable (PList xs) = False"
| "hashable (PDict d) = False"
| "hashable v = True"

text \<open>The number a value stands for in arithmetic and in \<^verbatim>\<open>==\<close>, if it is a number.\<close>

fun num_of :: "pyval \<Rightarrow> real option" where
  "num_of (PBool b) = Some (if b then 1 else 0)"
| "num_of (PInt i) = Some (of_int i)"
| "num_of (PFloat r) = Some r"
| "num_of v = None"

text \<open>\<^verbatim>\<open>a == b\<close> on hashable values: numbers compare by value across bool, int and float.\<close>

definition py_eq :: "pyval \<Rightarrow> pyval \<Rightarrow> bool" where
  "py_eq a b =
     (case (num_of a, num_of b) of
        (Some x, Some y) \<Rightarrow> x = y
      | (None, None) \<Rightarrow> a = b
      | _ \<Rightarrow> False)"

text \<open>A list of floats as the provider returns it, stored as a Python value and read back.\<close>

definition of_vec :: "vec \<Rightarrow> pyval" where
  "of_vec v = PList (map PFloat v)"

fun those_nums :: "pyval list \<Rightarrow> vec option" where
  "those_nums [] = Some []"
| "those_nums (x # xs) =
     (case num_of x of
        None \<Rightarrow> None
      | Some r \<Rightarrow> (case those_nums xs of None \<Rightarrow> None | Some rs \<Rightarrow> Some (r # rs)))"

fun as_vec :: "pyval \<Rightarrow> vec option" where
  "as_vec (PList xs) = those_nums xs"
| "as_vec v = None"

section \<open>The embedding cache (ai\_engine.py, AISentinel.get\_embedding)\<close>

text \<open>
  The external embedding call is a parameter: \<open>None\<close> stands for any exception raised
  inside the \<^verbatim>\<open>try\<close> block (the call itself or reading \<^verbatim>\<open>response.data[0].embedding\<close>).
\<close>

type_synonym provider = "pyval \<Rightarrow> vec option"

type_synonym cache = "(pyval \<times> vec) list"

definition zero_embedding :: vec where
  "zero_embedding = replicate 1536 0"

fun cache_lookup :: "cache \<Rightarrow> pyval \<Rightarrow> vec option" where
  "cache_lookup [] t = None"
| "cache_lookup ((k, v) # c) t = (if py_eq k t then Some v else cache_lookup c t)"

text \<open>
  Returns the result and the cache afterwards. The membership test is outside the
  \<^verbatim>\<open>try\<close>, so an unhashable text raises TypeError to the caller. A new entry is
  only written on a miss, hence appended.
\<close>

definition get_embedding :: "provider \<Rightarrow> cache \<Rightarrow> pyval \<Rightarrow> (error + vec) \<times> cache" where
  "get_embedding prov c text =
     (if \<not> hashable text then (Inl TypeError, c)
      else case cache_lookup c text of
             Some v \<Rightarrow> (Inr v, c)
           | None \<Rightarrow>
               (case prov text of
                  Some embedding \<Rightarrow> (Inr embedding, c @ [(text, embedding)])
                | None \<Rightarrow> (Inr zero_embedding, c)))"

section \<open>Cosine similarity (ai\_engine.py, search\_knowledge\_base, lines 152-158)\<close>

definition py_truediv :: "real \<Rightarrow> real \<Rightarrow> error + real" where
  "py_truediv x y = (if y = 0 then Inl ZeroDivisionError else Inr (x / y))"

definition dot_product :: "vec \<Rightarrow> vec \<Rightarrow> real" where
  "dot_product a b = sum_list (map (\<lambda>(a_i, b_i). a_i * b_i) (zip a b))"

definition magnitude :: "vec \<Rightarrow> real" where
  "magnitude a = sqrt (sum_list (map (\<lambda>a_i. a_i ^ 2) a))"

definition cosine_similarity :: "vec \<Rightarrow> vec \<Rightarrow> error + real" where
  "cosine_similarity a b =
     (if magnitude a * magnitude b = 0 then Inr 0
      else py_truediv (dot_product a b) (magnitude a * magnitude b))"

section \<open>Retrieval (ai\_engine.py, AISentinel.search\_knowledge\_base)\<close>

record sentinel =
  knowledge_base :: "pydict list"
  embedding_cache :: cache

text \<open>\<^verbatim>\<open>item.get("embedding")\<close> is falsy: the key is missing or its value is falsy.\<close>

definition lacks_embedding :: "pydict \<Rightarrow> bool" where
  "lacks_embedding item = (case map_of item ''embedding'' of None \<Rightarrow> True | Some v \<Rightarrow> \<not> truthy v)"

text \<open>
  The backfill loop (lines 147-149). Items are mutated in place one after the other, so
  when an item raises, the items before it keep their new embeddings: the function
  returns the error, if any, with the store and the cache as they are at that point.
\<close>

fun ensure_embeddings :: "provider \<Rightarrow> cache \<Rightarrow> pydict list \<Rightarrow> error option \<times> pydict list \<times> cache" where
  "ensure_embeddings prov c [] = (None, [], c)"
| "ensure_embeddings prov c (item # rest) =
     (if lacks_embedding item then
        (case getitem item ''content'' of
           Inl e \<Rightarrow> (Some e, item # rest, c)
         | Inr text \<Rightarrow>
             (case get_embedding prov c text of
                (Inl e, c') \<Rightarrow> (Some e, item # rest, c')
              | (Inr v, c') \<Rightarrow>
                  (case ensure_embeddings prov c' rest of
                     (err, rest', c'') \<Rightarrow> (err, setitem ''embedding'' (of_vec v) item # rest', c''))))
      else
        (case ensure_embeddings prov c rest of
           (err, rest', c') \<Rightarrow> (err, item # rest', c')))"

text \<open>
  \<^verbatim>\<open>cosine_similarity(query_embedding, item["embedding"])\<close>: the stored value must be a
  list of numbers, anything else raises TypeError in the arithmetic.
\<close>

definition score_item :: "vec \<Rightarrow> pydict \<Rightarrow> error + real" where
  "score_item q item =
     (case getitem item ''embedding'' of
        Inl e \<Rightarrow> Inl e
      | Inr b \<Rightarrow> (case as_vec b of None \<Rightarrow> Inl TypeError | Some bv \<Rightarrow> cosine_similarity q bv))"

text \<open>The list comprehension of lines 161-164: the first item that raises ends it.\<close>

fun score_all :: "vec \<Rightarrow> pydict list \<Rightarrow> error + (pydict \<times> real) list" where
  "score_all q [] = Inr []"
| "score_all q (item # rest) =
     (case score_item q item of
        Inl e \<Rightarrow> Inl e
      | Inr s \<Rightarrow> (case score_all q rest of Inl e \<Rightarrow> Inl e | Inr ss \<Rightarrow> Inr ((item, s) # ss)))"

text \<open>
  \<^verbatim>\<open>xs[:k]\<close> for an arbitrary Python integer: a negative \<open>k\<close> counts from the end.
\<close>

definition slice_to :: "int \<Rightarrow> 'a list \<Rightarrow> 'a list" where
  "slice_to k xs = (if 0 \<le> k then take (nat k) xs else take (nat (int (length xs) + k)) xs)"

text \<open>
  \<^verbatim>\<open>sort(key=..., reverse=True)\<close> is a stable sort in descending order of the key: that
  is the stable ascending sort on the negated key.
\<close>

definition sort_by_score :: "(pydict \<times> real) list \<Rightarrow> (pydict \<times> real) list" where
  "sort_by_score scored_items = sort_key (\<lambda>x. - snd x) scored_items"

definition search_knowledge_base ::
    "provider \<Rightarrow> sentinel \<Rightarrow> string \<Rightarrow> int \<Rightarrow> (error + pydict list) \<times> sentinel" where
  "search_knowledge_base prov st query top_k =
     (case get_embedding prov (embedding_cache st) (PStr query) of
        (Inl e, c1) \<Rightarrow> (Inl e, st\<lparr>embedding_cache := c1\<rparr>)
      | (Inr query_embedding, c1) \<Rightarrow>
          (case ensure_embeddings prov c1 (knowledge_base st) of
             (Some e, kb', c2) \<Rightarrow> (Inl e, \<lparr>knowledge_base = kb', embedding_cache = c2\<rparr>)
           | (None, kb', c2) \<Rightarrow>
               (case score_all query_embedding kb' of
                  Inl e \<Rightarrow> (Inl e, \<lparr>knowledge_base = kb', embedding_cache = c2\<rparr>)
                | Inr scored_items \<Rightarrow>
                    (Inr (map fst (slice_to top_k (sort_by_score scored_items))),
                     \<lparr>knowledge_base = kb', embedding_cache = c2\<rparr>))))"





text \<open>
  \<^verbatim>\<open>{k: v for k, v in item.items() if k != 'embedding'}\<close>: the copy of an item that the
  knowledge manager hands out.
\<close>

definition strip_embedding :: "pydict \<Rightarrow> pydict" where
  "strip_embedding item = filter (\<lambda>(k, v). k \<noteq> ''embedding'') item"

section \<open>The knowledge manager (knowledge\_manager.py, KnowledgeManager)\<close>

text \<open>
  The manager keeps the list of items and the id for the next item. Writing the file
  (\<^verbatim>\<open>_save_knowledge_base\<close>) is left out: storage is outside the model.
\<close>

record manager =
  km_knowledge_base :: "pydict list"
  next_id :: pyval

text \<open>The manager's own \<^verbatim>\<open>get_embedding\<close>: no cache, everything inside the \<^verbatim>\<open>try\<close>.\<close>

definition km_get_embedding :: "provider \<Rightarrow> pyval \<Rightarrow> vec" where
  "km_get_embedding prov text = (case prov text of Some embedding \<Rightarrow> embedding | None \<Rightarrow> zero_embedding)"

text \<open>\<^verbatim>\<open>[item["id"] for item in self.knowledge_base]\<close>\<close>

fun item_ids :: "pydict list \<Rightarrow> error + pyval list" where
  "item_ids [] = Inr []"
| "item_ids (item # rest) =
     (case getitem item ''id'' of
        Inl e \<Rightarrow> Inl e
      | Inr v \<Rightarrow> (case item_ids rest of Inl e \<Rightarrow> Inl e | Inr vs \<Rightarrow> Inr (v # vs)))"

definition num_val :: "pyval \<Rightarrow> real" where
  "num_val v = (case num_of v of Some r \<Rightarrow> r | None \<Rightarrow> 0)"

text \<open>\<^verbatim>\<open>x + 1\<close>\<close>

fun py_add1 :: "pyval \<Rightarrow> error + pyval" where
  "py_add1 (PInt i) = Inr (PInt (i + 1))"
| "py_add1 (PBool b) = Inr (PInt ((if b then 1 else 0) + 1))"
| "py_add1 (PFloat r) = Inr (PFloat (r + 1))"
| "py_add1 v = Inl TypeError"

text \<open>
  \<^verbatim>\<open>max(ids, default=0) + 1\<close>. On numbers \<^verbatim>\<open>max\<close> keeps the first largest element. A
  value that is not a number makes the expression raise TypeError: either \<^verbatim>\<open>max\<close>
  compares it with a number, or \<^verbatim>\<open>max\<close> returns a value that is not a number and
  the addition fails.
\<close>

definition next_id_of :: "pyval list \<Rightarrow> error + pyval" where
  "next_id_of ids =
     (case ids of
        [] \<Rightarrow> py_add1 (PInt 0)
      | x # rest \<Rightarrow>
          (if list_all (\<lambda>v. num_of v \<noteq> None) ids
           then py_add1 (fold (\<lambda>v m. if num_val m < num_val v then v else m) rest x)
           else Inl TypeError))"

text \<open>\<^verbatim>\<open>__init__\<close>, from the loaded list of items.\<close>

definition km_init :: "pydict list \<Rightarrow> error + manager" where
  "km_init kb =
     (case item_ids kb of
        Inl e \<Rightarrow> Inl e
      | Inr ids \<Rightarrow>
          (case next_id_of ids of
             Inl e \<Rightarrow> Inl e
           | Inr n \<Rightarrow> Inr \<lparr>km_knowledge_base = kb, next_id = n\<rparr>))"

text \<open>\<^verbatim>\<open>create_item\<close>: returns the created item without its embedding, and the manager afterwards.\<close>

definition create_item :: "provider \<Rightarrow> manager \<Rightarrow> pydict \<Rightarrow> (error + pydict) \<times> manager" where
  "create_item prov st item_data =
     (case getitem item_data ''title'' of
        Inl e \<Rightarrow> (Inl e, st)
      | Inr title \<Rightarrow>
     (case getitem item_data ''content'' of
        Inl e \<Rightarrow> (Inl e, st)
      | Inr content \<Rightarrow>
     (case getitem item_data ''category'' of
        Inl e \<Rightarrow> (Inl e, st)
      | Inr category \<Rightarrow>
          (let tags = (case map_of item_data ''tags'' of None \<Rightarrow> PList [] | Some v \<Rightarrow> v);
               new_item = [(''id'', next_id st), (''title'', title), (''content'', content),
                           (''category'', category), (''tags'', tags), (''embedding'', PNone)];
               new_item = setitem ''embedding'' (of_vec (km_get_embedding prov content)) new_item;
               kb = km_knowledge_base st @ [new_item]
           in case py_add1 (next_id st) of
                Inl e \<Rightarrow> (Inl e, st\<lparr>km_knowledge_base := kb\<rparr>)
              | Inr n \<Rightarrow> (Inr (strip_embedding new_item), \<lparr>km_knowledge_base = kb, next_id = n\<rparr>)))))"

definition recognized_fields :: "string list" where
  "recognized_fields = [''title'', ''content'', ''category'', ''tags'']"

text \<open>Lines 207-209: the loop over the patch.\<close>

definition apply_updates :: "pydict \<Rightarrow> pydict \<Rightarrow> pydict" where
  "apply_updates updates item =
     fold (\<lambda>(key, value) it. if key \<in> set recognized_fields then setitem key value it else it)
       updates item"

text \<open>
  \<^verbatim>\<open>update_item\<close>: the loop over the store. It returns the result (\<open>None\<close> for an id that
  is not found) and the store afterwards.
\<close>

fun update_loop :: "provider \<Rightarrow> int \<Rightarrow> pydict \<Rightarrow> pydict list \<Rightarrow> (error + pydict option) \<times> pydict list" where
  "update_loop prov item_id updates [] = (Inr None, [])"
| "update_loop prov item_id updates (item # rest) =
     (case getitem item ''id'' of
        Inl e \<Rightarrow> (Inl e, item # rest)
      | Inr v \<Rightarrow>
          (if py_eq v (PInt item_id) then
             (let item1 = apply_updates updates item in
              if ''content'' \<in> set (map fst updates) then
                (case getitem item1 ''content'' of
                   Inl e \<Rightarrow> (Inl e, item1 # rest)
                 | Inr c \<Rightarrow>
                     (let item2 = setitem ''embedding'' (of_vec (km_get_embedding prov c)) item1
                      in (Inr (Some (strip_embedding item2)), item2 # rest)))
              else (Inr (Some (strip_embedding item1)), item1 # rest))
           else (case update_loop prov item_id updates rest of (r, rest') \<Rightarrow> (r, item # rest'))))"

definition update_item ::
    "provider \<Rightarrow> manager \<Rightarrow> int \<Rightarrow> pydict \<Rightarrow> (error + pydict option) \<times> manager" where
  "update_item prov st item_id updates =
     (case update_loop prov item_id updates (km_knowledge_base st) of
        (r, kb) \<Rightarrow> (r, st\<lparr>km_knowledge_base := kb\<rparr>))"

text \<open>\<^verbatim>\<open>delete_item\<close>: removes the first item with the id.\<close>

fun delete_loop :: "int \<Rightarrow> pydict list \<Rightarrow> (error + bool) \<times> pydict list" where
  "delete_loop item_id [] = (Inr False, [])"
| "delete_loop item_id (item # rest) =
     (case getitem item ''id'' of
        Inl e \<Rightarrow> (Inl e, item # rest)
      | Inr v \<Rightarrow>
          (if py_eq v (PInt item_id) then (Inr True, rest)
           else (case delete_loop item_id rest of (r, rest') \<Rightarrow> (r, item # rest'))))"

definition delete_item :: "manager \<Rightarrow> int \<Rightarrow> (error + bool) \<times> manager" where
  "delete_item st item_id =
     (case delete_loop item_id (km_knowledge_base st) of
        (r, kb) \<Rightarrow> (r, st\<lparr>km_knowledge_base := kb\<rparr>))"

text \<open>
  \<^verbatim>\<open>bulk_update_embeddings\<close>: an item without a content raises KeyError after the items
  before it have been given their new embeddings.
\<close>

fun bulk_loop :: "provider \<Rightarrow> pydict list \<Rightarrow> (error + int) \<times> pydict list" where
  "bulk_loop prov [] = (Inr 0, [])"
| "bulk_loop prov (item # rest) =
     (case getitem item ''content'' of
        Inl e \<Rightarrow> (Inl e, item # rest)
      | Inr c \<Rightarrow>
          (case bulk_loop prov rest of
             (r, rest') \<Rightarrow>
               (case r of Inl e \<Rightarrow> Inl e | Inr n \<Rightarrow> Inr (n + 1),
                setitem ''embedding'' (of_vec (km_get_embedding prov c)) item # rest')))"

definition bulk_update_embeddings :: "provider \<Rightarrow> manager \<Rightarrow> (error + int) \<times> manager" where
  "bulk_update_embeddings prov st =
     (case bulk_loop prov (km_knowledge_base st) of
        (r, kb) \<Rightarrow> (r, st\<lparr>km_knowledge_base := kb\<rparr>))"

section \<open>Sequences of operations on the store\<close>

text \<open>
  The operations that touch the items, each run with the provider as it behaves at
  that moment. The search of the engine and the operations of the manager work on the
  same collection (the engine on its own loaded copy); here they act on one list, which
  covers every state either of them can reach. An operation that raises leaves the
  store as it is at that point and the next operation goes on from there.
\<close>

datatype operation =
    Create pydict
  | Update int pydict
  | Delete int
  | BulkReembed
  | Search string int

fun step :: "provider \<times> operation \<Rightarrow> manager \<times> cache \<Rightarrow> manager \<times> cache" where
  "step (prov, Create item_data) (m, c) = (snd (create_item prov m item_data), c)"
| "step (prov, Update item_id updates) (m, c) = (snd (update_item prov m item_id updates), c)"
| "step (prov, Delete item_id) (m, c) = (snd (delete_item m item_id), c)"
| "step (prov, BulkReembed) (m, c) = (snd (bulk_update_embeddings prov m), c)"
| "step (prov, Search query top_k) (m, c) =
     (let s = snd (search_knowledge_base prov
                \<lparr>knowledge_base = km_knowledge_base m, embedding_cache = c\<rparr> query top_k)
      in (m\<lparr>km_knowledge_base := knowledge_base s\<rparr>, embedding_cache s))"

definition run :: "(provider \<times> operation) list \<Rightarrow> manager \<times> cache \<Rightarrow> manager \<times> cache" where
  "run trace w = fold step trace w"

section \<open>Concrete providers and items used in the examples\<close>





section \<open>Cosine similarity: symmetry and the zero guard\<close>




section \<open>The cache holds provider results only\<close>

lemma cache_lookup_append:
  "cache_lookup (c @ d) t = (case cache_lookup c t of Some v \<Rightarrow> Some v | None \<Rightarrow> cache_lookup d t)"
  by (induction c) auto

lemma py_eq_refl: "py_eq t t"
  by (cases t) (simp_all add: py_eq_def)

text \<open>
  C10. On a miss with a failing provider the zero vector of length 1536 is returned and
  the cache is left as it was, so that the same text asked again goes to the provider
  again (and gets its answer, if it now succeeds); every entry of the cache afterwards
  was there before or is what the provider returned for this text.
\<close>

theorem get_embedding_failure_not_cached:
  assumes "hashable t" and "cache_lookup c t = None" and "prov t = None"
    and "prov' t = Some v"
  shows "get_embedding prov c t = (Inr zero_embedding, c)
         \<and> length zero_embedding = 1536 \<and> set zero_embedding \<subseteq> {0}
         \<and> get_embedding prov' (snd (get_embedding prov c t)) t = (Inr v, c @ [(t, v)])
         \<and> set (snd (get_embedding p c u)) \<subseteq> set c \<union> {(u, e) |e. p u = Some e}"
proof -
  have first: "get_embedding prov c t = (Inr zero_embedding, c)"
    using assms by (simp add: get_embedding_def)
  have again: "get_embedding prov' (snd (get_embedding prov c t)) t = (Inr v, c @ [(t, v)])"
    using assms first by (simp add: get_embedding_def)
  have only: "set (snd (get_embedding p c u)) \<subseteq> set c \<union> {(u, e) |e. p u = Some e}"
    by (auto simp: get_embedding_def split: option.splits)
  show ?thesis using first again only by (simp add: zero_embedding_def)
qed

theorem get_embedding_failure_not_cached_witness:
  "get_embedding (\<lambda>t. None) [] (PStr ''reset'') = (Inr zero_embedding, [])
   \<and> get_embedding (\<lambda>t. Some [1]) (snd (get_embedding (\<lambda>t. None) [] (PStr ''reset''))) (PStr ''reset'')
       = (Inr [1], [(PStr ''reset'', [1])])"
proof -
  have h: "hashable (PStr ''reset'')" "cache_lookup [] (PStr ''reset'') = None"
    "(\<lambda>t::pyval. None::vec option) (PStr ''reset'') = None"
    "(\<lambda>t::pyval. Some [1::real]) (PStr ''reset'') = Some [1]"
    by simp_all
  from get_embedding_failure_not_cached [OF h, of "\<lambda>t. None" "PNone"] show ?thesis
    by (elim conjE) simp
qed

section \<open>Retrieval: what the search returns\<close>





























end
